theory Spec2Isabelle
  imports Main
begin

section \<open>Data model\<close>

text \<open>
  Times are milliseconds since the epoch, as \<^verbatim>\<open>Date.now()\<close> returns them. Object ids
  (\<^verbatim>\<open>_id\<close>) are opaque keys. The strings of a login, of a password and of an administrator
  are JavaScript strings, that is sequences of UTF-16 code units; \<open>js\<close> gives the code
  units of a literal.
\<close>

type_synonym time_ms = int
type_synonym objectid = nat
type_synonym jstring = "nat list"

definition js :: "string \<Rightarrow> jstring" where
  "js s = map of_char s"

text \<open>
  \<^verbatim>\<open>process.env\<close>: a variable is unset (\<open>None\<close>) or a string. \<^verbatim>\<open>JWT_EXPIRES_IN\<close>, a
  timespan such as \<^verbatim>\<open>'24h'\<close>, is kept as the number of seconds it denotes.
\<close>

record env =
  JWT_SECRET :: "string option"
  JWT_EXPIRES_IN :: "nat option"
  SMTP_USER :: "string option"
  ADMIN_EMAIL :: "string option"

text \<open>JavaScript truthiness of an environment string, and \<^verbatim>\<open>x || d\<close>.\<close>

fun truthy :: "string option \<Rightarrow> bool" where
  "truthy None = False"
| "truthy (Some s) = (s \<noteq> [])"

fun or_default :: "string option \<Rightarrow> string \<Rightarrow> string" where
  "or_default None d = d"
| "or_default (Some s) d = (if s = [] then d else s)"

fun or_default_nat :: "nat option \<Rightarrow> nat \<Rightarrow> nat" where
  "or_default_nat None d = d"
| "or_default_nat (Some n) d = n"

subsection \<open>Password hashing (bcryptjs)\<close>

text \<open>
  Modelled from the spec: the third-party library bcryptjs (\<^verbatim>\<open>genSalt\<close>, \<^verbatim>\<open>hash\<close>,
  \<^verbatim>\<open>compare\<close>) is not part of the repository. Section 4.1 of the specification describes
  it as an ideal salted one-way hash: \<^verbatim>\<open>verifyPassword\<close> is true iff the hash of the
  candidate matches the stored hash, \<^verbatim>\<open>setPassword\<close> computes a fresh salted hash at a
  cost parameter. A string in a password position, whether a request carries it or the
  store holds it, is therefore either a bcrypt hash string, given by its cost, its salt
  and the string that was hashed, or any other string (\<open>Plain\<close>). A hash string has 60
  characters. The library itself reads at most 72 bytes of a password, made of the UTF-8
  encoding and a terminating zero, repeated; the ideal hash agrees with it on the
  passwords it reads whole (\<open>bcrypt_exact\<close>): a hash string, or at most 71 characters
  between U+0001 and U+007F.
\<close>

datatype pw = Plain jstring | Bcrypt nat nat pw

datatype salt = Salt nat nat

definition genSalt :: "nat \<Rightarrow> nat \<Rightarrow> salt" where
  "genSalt rounds rnd = Salt rounds rnd"

fun bcrypt_hash :: "pw \<Rightarrow> salt \<Rightarrow> pw" where
  "bcrypt_hash p (Salt rounds rnd) = Bcrypt rounds rnd p"

fun bcrypt_compare :: "pw \<Rightarrow> pw \<Rightarrow> bool" where
  "bcrypt_compare candidate (Bcrypt rounds rnd p) = (p = candidate)"
| "bcrypt_compare candidate (Plain s) = False"



text \<open>The \<^verbatim>\<open>length\<close> of such a string, in code units.\<close>

fun pw_units :: "pw \<Rightarrow> nat" where
  "pw_units (Plain s) = length s"
| "pw_units (Bcrypt rounds rnd p) = 60"

subsection \<open>JSON values in password positions\<close>

text \<open>
  A field of a JSON body need not be a string. \<^verbatim>\<open>JString\<close> is a string; \<^verbatim>\<open>JPrimitive\<close> is
  a number or a boolean, given by its truthiness and by \<^verbatim>\<open>String(value)\<close>; \<^verbatim>\<open>JStructured\<close>
  is an array or an object, given by a string that the validators of express-validator
  treat as they treat the value. An absent field and \<^verbatim>\<open>null\<close> read as the empty string:
  the validators and \<^verbatim>\<open>!value\<close> treat all three alike, and every route refuses them before
  it uses them.
\<close>

datatype json = JString pw | JPrimitive bool jstring | JStructured pw

fun text_of :: "json \<Rightarrow> pw" where
  "text_of (JString p) = p"
| "text_of (JPrimitive t s) = Plain s"
| "text_of (JStructured p) = p"


subsection \<open>Administrators (models/Admin.js)\<close>

datatype role = admin | super_admin

record admin_rec =
  a_id :: objectid
  username :: jstring
  email :: jstring
  password :: pw
  fullName :: "jstring option"
  role :: role
  isActive :: bool
  lastLogin :: "time_ms option"

text \<open>
  A Mongoose document of the Admin model: the field values and whether the path
  \<^verbatim>\<open>password\<close> is marked modified (\<^verbatim>\<open>this.isModified('password')\<close>). A document read from
  the store is unmodified; a document built with \<^verbatim>\<open>new Admin({...})\<close> has every given
  path modified; assigning a string to \<^verbatim>\<open>password\<close> marks the path only if the string
  differs from the one the document holds.
\<close>

record admin_doc =
  flds :: admin_rec
  isModified_password :: bool

definition loaded :: "admin_rec \<Rightarrow> admin_doc" where
  "loaded a = \<lparr>flds = a, isModified_password = False\<rparr>"

definition new_Admin :: "admin_rec \<Rightarrow> admin_doc" where
  "new_Admin a = \<lparr>flds = a, isModified_password = True\<rparr>"


text \<open>
  \<^verbatim>\<open>adminSchema.pre('save')\<close>. The salt's random part is an input. The ideal hash of
  the model does not throw, so the hook's \<^verbatim>\<open>catch\<close> has no case here.
\<close>

definition pre_save :: "nat \<Rightarrow> admin_doc \<Rightarrow> admin_doc" where
  "pre_save rnd d =
     (if \<not> isModified_password d then d
      else d\<lparr>flds := (flds d)\<lparr>password := bcrypt_hash (password (flds d)) (genSalt 12 rnd)\<rparr>\<rparr>)"

text \<open>
  The constraints of \<^verbatim>\<open>adminSchema\<close> on the paths the login reads, as they hold of a
  stored document: a username of 3 to 20 characters, an email (required), and a password
  of at least 6 characters. Mongoose checks the password's length on the string that is
  saved, before the hook hashes it, so the stored password is the hash of such a string.
  The routes that assign a password have checked its length before they save (a
  validator that counts characters, of which a string never has more than code units),
  and the script saves a literal, so that this validation of \<^verbatim>\<open>save\<close> has no failing
  case in the model.
\<close>

fun hash_of_minlength :: "nat \<Rightarrow> pw \<Rightarrow> bool" where
  "hash_of_minlength n (Bcrypt rounds rnd p) = (n \<le> pw_units p)"
| "hash_of_minlength n (Plain s) = False"

definition adminSchema :: "admin_rec \<Rightarrow> bool" where
  "adminSchema a =
     (3 \<le> length (username a) \<and> length (username a) \<le> 20 \<and> email a \<noteq> []
      \<and> hash_of_minlength 6 (password a))"

text \<open>
  \<^verbatim>\<open>adminSchema.methods.comparePassword\<close>. \<^verbatim>\<open>bcrypt.compare\<close> rejects (the \<^verbatim>\<open>await\<close> throws)
  when the candidate is not a string.
\<close>

definition comparePassword :: "admin_rec \<Rightarrow> json \<Rightarrow> string + bool" where
  "comparePassword this candidatePassword =
     (case candidatePassword of
        JString p \<Rightarrow> Inr (bcrypt_compare p (password this))
      | JPrimitive t s \<Rightarrow> Inl ''Illegal arguments''
      | JStructured p \<Rightarrow> Inl ''Illegal arguments'')"

text \<open>
  The collection is the list of its documents in natural order. \<^verbatim>\<open>save\<close> runs the hook
  and writes the document under its \<^verbatim>\<open>_id\<close>, appending it if it is new.
\<close>

fun write_admin :: "admin_rec list \<Rightarrow> admin_rec \<Rightarrow> admin_rec list" where
  "write_admin [] d = [d]"
| "write_admin (a # as) d = (if a_id a = a_id d then d # as else a # write_admin as d)"

definition save :: "nat \<Rightarrow> admin_rec list \<Rightarrow> admin_doc \<Rightarrow> admin_rec list \<times> admin_doc" where
  "save rnd store d =
     (let d' = pre_save rnd d in (write_admin store (flds d'), loaded (flds d')))"

definition findById :: "admin_rec list \<Rightarrow> objectid \<Rightarrow> admin_rec option" where
  "findById store i = find (\<lambda>a. a_id a = i) store"

subsection \<open>Session tokens (jsonwebtoken)\<close>

text \<open>
  Modelled from the spec: the third-party library jsonwebtoken is not part of the
  repository. Section 4.2 of the specification describes it: \<^verbatim>\<open>issue\<close> produces a signed
  token embedding the three subject fields, an issued-at time and an expiry; \<^verbatim>\<open>verify\<close>
  checks the signature and the expiry, fails with an invalid-token error on malformed or
  wrongly signed input and with an expired-token error on expired input. A token is
  either not a token at all (\<open>Malformed\<close>: a string the library cannot decode or whose
  claims are ill-typed), or a payload together with the key that signed it. Whoever
  holds the key can sign any payload, so a payload's \<^verbatim>\<open>id\<close> may be missing
  (\<^verbatim>\<open>decoded.id\<close> is then \<^verbatim>\<open>undefined\<close>, or \<^verbatim>\<open>null\<close>), it may be a value that Mongoose cannot
  cast to an ObjectId, or an ObjectId; its expiry may be missing, and it may carry a
  not-before time. The library counts time in whole seconds
  (\<^verbatim>\<open>Math.floor(Date.now() / 1000)\<close>) and checks the signature first, then the not-before
  time, for which it has a third error, then the expiry.
\<close>

datatype id_claim = NoId | NotAnObjectId | ObjectId objectid

record payload =
  p_id :: id_claim
  p_username :: jstring
  p_role :: role
  iat :: int
  nbf :: "int option"
  exp :: "int option"

datatype jwt = Malformed | Jwt string payload

datatype jwt_error = JsonWebTokenError | NotBeforeError | TokenExpiredError

definition jwt_sign :: "objectid \<Rightarrow> jstring \<Rightarrow> role \<Rightarrow> string \<Rightarrow> nat \<Rightarrow> time_ms \<Rightarrow> jwt" where
  "jwt_sign i u r secret expiresIn now =
     Jwt secret \<lparr>p_id = ObjectId i, p_username = u, p_role = r,
                 iat = now div 1000, nbf = None, exp = Some (now div 1000 + int expiresIn)\<rparr>"

definition not_yet_valid :: "payload \<Rightarrow> time_ms \<Rightarrow> bool" where
  "not_yet_valid p now = (case nbf p of None \<Rightarrow> False | Some n \<Rightarrow> now div 1000 < n)"

definition expired :: "payload \<Rightarrow> time_ms \<Rightarrow> bool" where
  "expired p now = (case exp p of None \<Rightarrow> False | Some x \<Rightarrow> x \<le> now div 1000)"

fun jwt_verify :: "jwt \<Rightarrow> string \<Rightarrow> time_ms \<Rightarrow> jwt_error + payload" where
  "jwt_verify Malformed secret now = Inl JsonWebTokenError"
| "jwt_verify (Jwt k p) secret now =
     (if k \<noteq> secret then Inl JsonWebTokenError
      else if not_yet_valid p now then Inl NotBeforeError
      else if expired p now then Inl TokenExpiredError
      else Inr p)"

section \<open>HTTP responses and middleware\<close>

text \<open>
  \<^verbatim>\<open>res.status(s).json({success, message, ...})\<close>; \<^verbatim>\<open>res.json\<close> alone has status 200.
\<close>

record 'd response =
  status_code :: nat
  success :: bool
  msg :: "string option"
  data :: "'d option"

definition reply :: "nat \<Rightarrow> bool \<Rightarrow> string \<Rightarrow> 'd response" where
  "reply s ok m = \<lparr>status_code = s, success = ok, msg = Some m, data = None\<rparr>"

text \<open>A middleware either answers the request or calls \<^verbatim>\<open>next()\<close> with what it attached.\<close>

datatype ('d, 'n) mw = Respond "'d response" | Next 'n

subsection \<open>middleware/auth.js\<close>

record req_admin =
  ra_id :: objectid
  ra_username :: jstring
  ra_email :: jstring
  ra_role :: role

text \<open>
  \<^verbatim>\<open>authenticateAdmin\<close>. The request's token is what
  \<^verbatim>\<open>req.header('Authorization')?.replace('Bearer ', '')\<close> yields: \<open>None\<close> when the header is
  absent or nothing is left of it (\<^verbatim>\<open>!token\<close>). The \<^verbatim>\<open>catch\<close> answers the library's invalid
  and expired errors by name and every other error with 500: the library's not-before
  error, and the CastError that \<^verbatim>\<open>Admin.findById\<close> throws for an id that is no ObjectId.
  \<^verbatim>\<open>Admin.findById(undefined)\<close> looks for the \<^verbatim>\<open>_id\<close> \<^verbatim>\<open>null\<close> and finds no document.
\<close>

definition authenticateAdmin ::
  "env \<Rightarrow> time_ms \<Rightarrow> admin_rec list \<Rightarrow> jwt option \<Rightarrow> (unit, req_admin) mw" where
  "authenticateAdmin e now store token =
     (case token of
        None \<Rightarrow> Respond (reply 401 False ''Access denied. No token provided.'')
      | Some t \<Rightarrow>
          (case jwt_verify t (or_default (JWT_SECRET e) ''your-secret-key'') now of
             Inl JsonWebTokenError \<Rightarrow> Respond (reply 401 False ''Access denied. Invalid token.'')
           | Inl TokenExpiredError \<Rightarrow> Respond (reply 401 False ''Access denied. Token expired.'')
           | Inl NotBeforeError \<Rightarrow> Respond (reply 500 False ''Authentication failed'')
           | Inr decoded \<Rightarrow>
               (case p_id decoded of
                  NotAnObjectId \<Rightarrow> Respond (reply 500 False ''Authentication failed'')
                | NoId \<Rightarrow>
                    Respond (reply 401 False
                      ''Access denied. Invalid token or inactive account.'')
                | ObjectId i \<Rightarrow>
                    (case findById store i of
                       None \<Rightarrow>
                         Respond (reply 401 False
                           ''Access denied. Invalid token or inactive account.'')
                     | Some a \<Rightarrow>
                         if \<not> isActive a
                         then Respond (reply 401 False
                           ''Access denied. Invalid token or inactive account.'')
                         else Next \<lparr>ra_id = a_id a, ra_username = username a,
                                    ra_email = email a, ra_role = role a\<rparr>))))"

subsection \<open>Strings as the libraries treat them\<close>

text \<open>
  express-validator's \<^verbatim>\<open>trim()\<close> and the \<^verbatim>\<open>trim\<close> setter of a Mongoose schema strip, at both
  ends, the code units that JavaScript's \<^verbatim>\<open>\s\<close> matches. The \<^verbatim>\<open>lowercase\<close> setter is
  \<^verbatim>\<open>String.prototype.toLowerCase\<close>, whose case mapping is an input (\<open>lc\<close>); it maps the
  empty string to itself. The length express-validator's \<^verbatim>\<open>isLength\<close> compares, which counts
  characters rather than code units, is an input as well (\<open>vlen\<close>); a bcrypt hash string
  has 60 characters of one code unit each.
\<close>

definition is_space :: "nat \<Rightarrow> bool" where
  "is_space c = (c \<in> set ([9, 10, 11, 12, 13, 32, 160, 5760] @ [8192 ..< 8203]
                            @ [8232, 8233, 8239, 8287, 12288, 65279]))"

definition trim :: "jstring \<Rightarrow> jstring" where
  "trim s = rev (dropWhile is_space (rev (dropWhile is_space s)))"

definition toLowerCase :: "(jstring \<Rightarrow> jstring) \<Rightarrow> jstring \<Rightarrow> jstring" where
  "toLowerCase lc s = (if s = [] then [] else lc s)"


section \<open>routes/authRoutes.js\<close>

subsection \<open>POST /api/auth/login\<close>

text \<open>
  The validation chain of a route runs before its handler: it sanitises the body and
  records the errors the handler reads with \<^verbatim>\<open>validationResult(req)\<close>. \<^verbatim>\<open>notEmpty()\<close> refuses
  a value whose string is empty. The username is a JSON string, or a number or a boolean
  as the chain's \<^verbatim>\<open>trim()\<close> turns it into a string; the password has no sanitizer and
  reaches the handler as the body carries it.
\<close>

record login_body =
  req_username :: jstring
  req_password :: json

definition login_validators :: "login_body \<Rightarrow> string list \<times> login_body" where
  "login_validators b =
     (let u = trim (req_username b) in
      ((if u = [] then [''Username is required''] else []) @
       (if text_of (req_password b) = Plain [] then [''Password is required''] else []),
       b\<lparr>req_username := u\<rparr>))"

text \<open>
  \<^verbatim>\<open>Admin.findOne({ $or: [{ username }, { email: username }], isActive: true })\<close>: the
  first document of the collection that matches. Mongoose casts the values of the filter
  with the schema's setters: \<^verbatim>\<open>trim\<close> for \<^verbatim>\<open>username\<close>, \<^verbatim>\<open>lowercase\<close> and \<^verbatim>\<open>trim\<close> for
  \<^verbatim>\<open>email\<close>.
\<close>

definition findOne_active ::
  "(jstring \<Rightarrow> jstring) \<Rightarrow> admin_rec list \<Rightarrow> jstring \<Rightarrow> admin_rec option" where
  "findOne_active lc store u =
     find (\<lambda>a. (username a = trim u \<or> email a = trim (toLowerCase lc u)) \<and> isActive a) store"

text \<open>\<^verbatim>\<open>adminSchema.methods.updateLastLogin\<close>: sets the stamp and saves the document.\<close>

definition updateLastLogin ::
  "time_ms \<Rightarrow> nat \<Rightarrow> admin_rec list \<Rightarrow> admin_doc \<Rightarrow> admin_rec list \<times> admin_doc" where
  "updateLastLogin now rnd store d = save rnd store (d\<lparr>flds := (flds d)\<lparr>lastLogin := Some now\<rparr>\<rparr>)"

record admin_summary =
  s_id :: objectid
  s_username :: jstring
  s_email :: jstring
  s_fullName :: "jstring option"
  s_role :: role
  s_lastLogin :: "time_ms option"

datatype auth_data =
    Errors "string list"
  | Session jwt admin_summary
  | Account objectid jstring jstring role

text \<open>
  The handler of the route, after the validation chain. It returns the response and the
  collection as the request leaves it. Its \<^verbatim>\<open>catch\<close> answers 500 when \<^verbatim>\<open>comparePassword\<close>
  throws; it also answers failures of the database connection, which the collection of
  the model does not have.
\<close>

definition login_handler ::
  "env \<Rightarrow> (jstring \<Rightarrow> jstring) \<Rightarrow> time_ms \<Rightarrow> nat \<Rightarrow> admin_rec list \<Rightarrow> string list \<times> login_body
     \<Rightarrow> auth_data response \<times> admin_rec list" where
  "login_handler e lc now rnd store req =
     (case req of (errors, body) \<Rightarrow>
        if errors \<noteq> []
        then (\<lparr>status_code = 400, success = False, msg = Some ''Validation failed'',
               data = Some (Errors errors)\<rparr>, store)
        else
          (case findOne_active lc store (req_username body) of
             None \<Rightarrow> (reply 401 False ''Invalid credentials'', store)
           | Some a \<Rightarrow>
               (case comparePassword a (req_password body) of
                  Inl error \<Rightarrow> (reply 500 False ''Login failed'', store)
                | Inr isPasswordValid \<Rightarrow>
                    if \<not> isPasswordValid
                    then (reply 401 False ''Invalid credentials'', store)
                    else
                      (case updateLastLogin now rnd store (loaded a) of
                         (store', d) \<Rightarrow>
                           (\<lparr>status_code = 200, success = True, msg = Some ''Login successful'',
                             data = Some (Session
                               (jwt_sign (a_id (flds d)) (username (flds d)) (role (flds d))
                                  (or_default (JWT_SECRET e) ''your-secret-key'')
                                  (or_default_nat (JWT_EXPIRES_IN e) 86400) now)
                               \<lparr>s_id = a_id (flds d), s_username = username (flds d),
                                s_email = email (flds d), s_fullName = fullName (flds d),
                                s_role = role (flds d), s_lastLogin = lastLogin (flds d)\<rparr>)\<rparr>,
                            store')))))"

definition login_route ::
  "env \<Rightarrow> (jstring \<Rightarrow> jstring) \<Rightarrow> time_ms \<Rightarrow> nat \<Rightarrow> admin_rec list \<Rightarrow> login_body
     \<Rightarrow> auth_data response \<times> admin_rec list" where
  "login_route e lc now rnd store b = login_handler e lc now rnd store (login_validators b)"

subsection \<open>PUT /api/auth/change-password\<close>





section \<open>The simple server's login\<close>


section \<open>scripts/setup.js\<close>

text \<open>
  \<^verbatim>\<open>setupDatabase\<close>: creates the first super administrator unless one exists. The new
  document's \<^verbatim>\<open>_id\<close> and the salt's random part are inputs; \<^verbatim>\<open>isActive\<close> takes the
  schema's default.
\<close>

definition setupDatabase :: "objectid \<Rightarrow> nat \<Rightarrow> admin_rec list \<Rightarrow> admin_rec list" where
  "setupDatabase new_id rnd store =
     (case find (\<lambda>a. role a = super_admin) store of
        Some existingSuperAdmin \<Rightarrow> store
      | None \<Rightarrow>
          fst (save rnd store (new_Admin
            \<lparr>a_id = new_id, username = js ''superadmin'',
             email = js ''naveenp@tangiblelearning.in'',
             password = Plain (js ''admin123456''), fullName = Some (js ''Naveen Tripathi''),
             role = super_admin, isActive = True, lastLogin = None\<rparr>)))"

section \<open>Contact submissions\<close>

subsection \<open>The Contact model\<close>

text \<open>
  Modelled from the spec: \<^verbatim>\<open>models/Contact.js\<close> is not among the sources. Section 3 of the
  specification lists the attributes of a contact submission: sender name, email,
  optional phone, optional subject, message body, optional company, source, status (new,
  read, replied or resolved), origin IP, user agent and creation timestamp. The record
  is extensible, so that what is proved for every extension of it holds for whatever
  further paths the schema declares. \<^verbatim>\<open>save\<close> writes the document under its \<^verbatim>\<open>_id\<close>.
\<close>

datatype contact_status = new | read | replied | resolved

record contact_rec =
  c_id :: objectid
  name :: string
  c_email :: string
  phone :: "string option"
  subject :: "string option"
  c_message :: string
  company :: "string option"
  ipAddress :: "string option"
  userAgent :: "string option"
  source :: string
  status :: contact_status
  createdAt :: time_ms

fun write_contact :: "'z contact_rec_scheme list \<Rightarrow> 'z contact_rec_scheme \<Rightarrow> 'z contact_rec_scheme list" where
  "write_contact [] d = [d]"
| "write_contact (c # cs) d = (if c_id c = c_id d then d # cs else c # write_contact cs d)"

definition Contact_findById :: "'z contact_rec_scheme list \<Rightarrow> objectid \<Rightarrow> 'z contact_rec_scheme option" where
  "Contact_findById store i = find (\<lambda>c. c_id c = i) store"

subsection \<open>utils/emailService.js\<close>

text \<open>
  An \<^verbatim>\<open>async\<close> function's promise is resolved or rejected with an error. The mail
  library's transport (\<^verbatim>\<open>sendMail\<close>, which reaches outside the program) is an input: for
  a mail it returns \<open>None\<close> when the mail is handed over and the error when it throws. The
  functions return their promise's state, the lines they write to the console and the
  mails handed over.
\<close>

datatype promise = Resolved | Rejected string

record mail =
  mail_from :: string
  mail_to :: string
  mail_subject :: string
  mail_replyTo :: "jstring option"

record dispatch =
  settled :: promise
  console :: "string list"
  handed_over :: "mail list"

text \<open>
  \<^verbatim>\<open>createTransporter\<close> calls \<^verbatim>\<open>nodemailer.createTransporter\<close>. The module nodemailer has no
  property of that name (its factory is \<^verbatim>\<open>createTransport\<close>), so the call throws a
  TypeError and no transport is made of the library.
\<close>

definition createTransporter :: "(mail \<Rightarrow> string option) \<Rightarrow> string + (mail \<Rightarrow> string option)" where
  "createTransporter nodemailer = Inl ''nodemailer.createTransporter is not a function''"

definition sendNotificationEmail ::
  "env \<Rightarrow> (mail \<Rightarrow> string option) \<Rightarrow> 'z contact_rec_scheme \<Rightarrow> dispatch" where
  "sendNotificationEmail e transport contact =
     (if \<not> truthy (SMTP_USER e) \<or> \<not> truthy (ADMIN_EMAIL e)
      then \<lparr>settled = Resolved,
            console = [''Email configuration not found, skipping notification''],
            handed_over = []\<rparr>
      else
        (case createTransporter transport of
           Inl error \<Rightarrow> \<lparr>settled = Rejected error,
                          console = [''Failed to send notification email:''],
                          handed_over = []\<rparr>
         | Inr transporter \<Rightarrow>
             (let mailOptions =
                    \<lparr>mail_from = or_default (SMTP_USER e) [],
                     mail_to = or_default (ADMIN_EMAIL e) [],
                     mail_subject = ''New Contact Form Submission - ''
                                      @ or_default (subject contact) ''No Subject'',
                     mail_replyTo = None\<rparr>
              in case transporter mailOptions of
                   None \<Rightarrow> \<lparr>settled = Resolved,
                             console = [''Notification email sent successfully''],
                             handed_over = [mailOptions]\<rparr>
                 | Some error \<Rightarrow> \<lparr>settled = Rejected error,
                                   console = [''Failed to send notification email:''],
                                   handed_over = []\<rparr>)))"

definition sendReplyEmail ::
  "env \<Rightarrow> (mail \<Rightarrow> string option) \<Rightarrow> 'z contact_rec_scheme \<Rightarrow> string \<Rightarrow> string \<Rightarrow> jstring
     \<Rightarrow> dispatch" where
  "sendReplyEmail e transport contact subj message fromEmail =
     (if \<not> truthy (SMTP_USER e)
      then \<lparr>settled = Rejected ''Email configuration not found'',
            console = [''Failed to send reply email:''], handed_over = []\<rparr>
      else
        (case createTransporter transport of
           Inl error \<Rightarrow> \<lparr>settled = Rejected error, console = [''Failed to send reply email:''],
                          handed_over = []\<rparr>
         | Inr transporter \<Rightarrow>
             (let mailOptions =
                    \<lparr>mail_from = or_default (SMTP_USER e) [], mail_to = c_email contact,
                     mail_subject = ''Re: '' @ subj, mail_replyTo = Some fromEmail\<rparr>
              in case transporter mailOptions of
                   None \<Rightarrow> \<lparr>settled = Resolved, console = [''Reply email sent successfully''],
                             handed_over = [mailOptions]\<rparr>
                 | Some error \<Rightarrow> \<lparr>settled = Rejected error,
                                   console = [''Failed to send reply email:''],
                                   handed_over = []\<rparr>)))"

subsection \<open>routes/contactRoutes.js: POST /api/contact\<close>

text \<open>
  The handler sees the request after the validation chain: the errors of the chain, the
  sanitised body, the client's address and user agent.
\<close>

record contact_body =
  b_name :: string
  b_email :: string
  b_phone :: "string option"
  b_subject :: "string option"
  b_message :: string
  b_company :: "string option"

record contact_req =
  validation_errors :: "string list"
  body :: contact_body
  req_ip :: "string option"
  remoteAddress :: "string option"
  user_agent :: "string option"

datatype contact_data = Invalid "string list" | Submitted objectid time_ms

record contact_outcome =
  response :: "contact_data response"
  contacts :: "contact_rec list"
  notified :: "mail list"
  logged :: "string list"

text \<open>
  The new document's \<^verbatim>\<open>_id\<close> is an input, and its creation stamp is the time of the
  request. The notification is started and not awaited: the response does not wait for
  the promise, and the \<^verbatim>\<open>.catch\<close> writes a rejection to the console. The handler's own
  \<^verbatim>\<open>catch\<close> (status 500) answers a failing store, which the model does not have.
\<close>

definition post_contact ::
  "env \<Rightarrow> (mail \<Rightarrow> string option) \<Rightarrow> time_ms \<Rightarrow> objectid \<Rightarrow> contact_rec list \<Rightarrow> contact_req
     \<Rightarrow> contact_outcome" where
  "post_contact e transport now new_id store req =
     (if validation_errors req \<noteq> []
      then \<lparr>response = \<lparr>status_code = 400, success = False, msg = Some ''Validation failed'',
                         data = Some (Invalid (validation_errors req))\<rparr>,
            contacts = store, notified = [], logged = []\<rparr>
      else
        (let fiveMinutesAgo = now - 5 * 60 * 1000 in
         case find (\<lambda>c. c_email c = b_email (body req) \<and> c_message c = b_message (body req)
                        \<and> createdAt c \<ge> fiveMinutesAgo) store of
           Some existingContact \<Rightarrow>
             \<lparr>response = reply 429 False
                ''Duplicate submission detected. Please wait before submitting again.'',
              contacts = store, notified = [], logged = []\<rparr>
         | None \<Rightarrow>
             (let contact =
                    \<lparr>c_id = new_id, name = b_name (body req), c_email = b_email (body req),
                     phone = b_phone (body req), subject = b_subject (body req),
                     c_message = b_message (body req), company = b_company (body req),
                     ipAddress = (if truthy (req_ip req) then req_ip req else remoteAddress req),
                     userAgent = user_agent req, source = ''website'', status = new,
                     createdAt = now\<rparr>;
                  sent = sendNotificationEmail e transport contact
              in \<lparr>response =
                    \<lparr>status_code = 201, success = True,
                     msg = Some ''Thank you for your message! We will get back to you soon.'',
                     data = Some (Submitted (c_id contact) (createdAt contact))\<rparr>,
                  contacts = write_contact store contact,
                  notified = handed_over sent,
                  logged = console sent @
                    (case settled sent of
                       Resolved \<Rightarrow> []
                     | Rejected error \<Rightarrow> [''Failed to send notification email:''])\<rparr>)))"

section \<open>routes/adminRoutes.js\<close>

text \<open>
  The routes run behind \<^verbatim>\<open>router.use(authenticateAdmin)\<close>. \<^verbatim>\<open>req.params.id\<close> is given as
  Mongoose casts it: \<open>None\<close> for a string that is no ObjectId, on which \<^verbatim>\<open>findById\<close>
  throws and the handler's \<^verbatim>\<open>catch\<close> answers 500.
\<close>

subsection \<open>GET /api/admin/contacts/:id\<close>

definition get_contact ::
  "'z contact_rec_scheme list \<Rightarrow> objectid option
     \<Rightarrow> 'z contact_rec_scheme response \<times> 'z contact_rec_scheme list" where
  "get_contact store params_id =
     (case params_id of
        None \<Rightarrow> (reply 500 False ''Failed to fetch contact'', store)
      | Some i \<Rightarrow>
          (case Contact_findById store i of
             None \<Rightarrow> (reply 404 False ''Contact not found'', store)
           | Some contact \<Rightarrow>
               if status contact = new
               then (\<lparr>status_code = 200, success = True, msg = None,
                      data = Some (contact\<lparr>status := read\<rparr>)\<rparr>,
                     write_contact store (contact\<lparr>status := read\<rparr>))
               else (\<lparr>status_code = 200, success = True, msg = None, data = Some contact\<rparr>, store)))"

subsection \<open>POST /api/admin/contacts/:id/reply\<close>

record reply_req =
  reply_errors :: "string list"
  reply_subject :: string
  reply_message :: string

record 'z reply_outcome =
  reply_response :: "unit response"
  reply_contacts :: "'z contact_rec_scheme list"
  reply_mails :: "mail list"
  reply_logged :: "string list"

text \<open>The reply is awaited: a rejection is thrown into the handler's \<^verbatim>\<open>catch\<close>.\<close>

definition post_reply ::
  "env \<Rightarrow> (mail \<Rightarrow> string option) \<Rightarrow> 'z contact_rec_scheme list \<Rightarrow> req_admin
     \<Rightarrow> objectid option \<Rightarrow> reply_req \<Rightarrow> 'z reply_outcome" where
  "post_reply e transport store ra params_id req =
     (if reply_errors req \<noteq> []
      then \<lparr>reply_response = reply 400 False ''Validation failed'', reply_contacts = store,
            reply_mails = [], reply_logged = []\<rparr>
      else
        (case params_id of
           None \<Rightarrow> \<lparr>reply_response = reply 500 False ''Failed to send reply'', reply_contacts = store,
                     reply_mails = [], reply_logged = [''Send reply error:'']\<rparr>
         | Some i \<Rightarrow>
             (case Contact_findById store i of
                None \<Rightarrow> \<lparr>reply_response = reply 404 False ''Contact not found'',
                          reply_contacts = store, reply_mails = [], reply_logged = []\<rparr>
              | Some contact \<Rightarrow>
                  (let sent = sendReplyEmail e transport contact (reply_subject req)
                                (reply_message req) (ra_email ra)
                   in case settled sent of
                        Rejected error \<Rightarrow>
                          \<lparr>reply_response = reply 500 False ''Failed to send reply'',
                           reply_contacts = store, reply_mails = handed_over sent,
                           reply_logged = console sent @ [''Send reply error:'']\<rparr>
                      | Resolved \<Rightarrow>
                          \<lparr>reply_response = reply 200 True ''Reply sent successfully'',
                           reply_contacts = write_contact store (contact\<lparr>status := replied\<rparr>),
                           reply_mails = handed_over sent, reply_logged = console sent\<rparr>))))"

section \<open>server.js: rate limiting\<close>







text \<open>
  A request as the limiters see it: the segments of its path, the client's address, its
  arrival time and its content, which no limiter reads. \<^verbatim>\<open>app.use(m, ...)\<close> applies to the
  paths under the mount point \<open>m\<close>; Express compares the segments without regard to the
  case of the letters A to Z.
\<close>

record http_request =
  path :: "jstring list"
  ip :: string
  at :: time_ms
  content :: string



definition ascii_lower :: "nat \<Rightarrow> nat" where
  "ascii_lower c = (if 65 \<le> c \<and> c \<le> 90 then c + 32 else c)"






definition submission :: "string \<Rightarrow> time_ms \<Rightarrow> string \<Rightarrow> http_request" where
  "submission k t c = \<lparr>path = [js ''api'', js ''contact''], ip = k, at = t, content = c\<rparr>"



section \<open>Example data\<close>

definition unset_env :: env where
  "unset_env = \<lparr>JWT_SECRET = None, JWT_EXPIRES_IN = None, SMTP_USER = None, ADMIN_EMAIL = None\<rparr>"


definition delivering :: "mail \<Rightarrow> string option" where
  "delivering m = None"

definition refusing :: "mail \<Rightarrow> string option" where
  "refusing m = Some ''ECONNREFUSED''"

definition example_contact :: contact_rec where
  "example_contact =
     \<lparr>c_id = 1, name = ''Ann Lee'', c_email = ''ann@example.org'', phone = None,
      subject = Some ''Demo'', c_message = ''Hello, I would like a demo.'', company = None,
      ipAddress = Some ''203.0.113.9'', userAgent = None, source = ''website'', status = new,
      createdAt = 1000000\<rparr>"

definition example_req :: contact_req where
  "example_req =
     \<lparr>validation_errors = [],
      body = \<lparr>b_name = ''Ann Lee'', b_email = ''ann@example.org'', b_phone = None,
              b_subject = Some ''Demo'', b_message = ''Hello, I would like a demo.'',
              b_company = None\<rparr>,
      req_ip = Some ''203.0.113.9'', remoteAddress = None, user_agent = None\<rparr>"

definition mail_env :: env where
  "mail_env = \<lparr>JWT_SECRET = None, JWT_EXPIRES_IN = None,
               SMTP_USER = Some ''mailer@example.org'', ADMIN_EMAIL = Some ''owner@example.org''\<rparr>"

definition example_admin :: req_admin where
  "example_admin = \<lparr>ra_id = 1, ra_username = js ''superadmin'',
                    ra_email = js ''naveenp@tangiblelearning.in'', ra_role = super_admin\<rparr>"

definition example_reply :: reply_req where
  "example_reply = \<lparr>reply_errors = [], reply_subject = ''Your inquiry'',
                    reply_message = ''Thank you, we will call you.''\<rparr>"

section \<open>Verified properties\<close>

subsection \<open>Facts about the store and the library models\<close>

lemma findById_write_admin: "findById (write_admin store d) (a_id d) = Some d"
  by (induction store) (auto simp: findById_def)




lemma find_active_props:
  "findOne_active lc store u = Some a \<Longrightarrow>
     isActive a \<and> (username a = trim u \<or> email a = trim (toLowerCase lc u)) \<and> a \<in> set store"
  unfolding findOne_active_def
  by (auto simp: find_Some_iff)

lemma trim_empty: "trim [] = []"
  by (simp add: trim_def)

lemma jwt_verify_sign:
  "jwt_verify (jwt_sign i u r secret n now) secret now' =
     (if now' div 1000 < now div 1000 + int n
      then Inr \<lparr>p_id = ObjectId i, p_username = u, p_role = r, iat = now div 1000, nbf = None,
                exp = Some (now div 1000 + int n)\<rparr>
      else Inl TokenExpiredError)"
  by (simp add: jwt_sign_def not_yet_valid_def expired_def)


lemma setupDatabase_empty:
  "setupDatabase i rnd [] =
     [\<lparr>a_id = i, username = js ''superadmin'', email = js ''naveenp@tangiblelearning.in'',
       password = Bcrypt 12 rnd (Plain (js ''admin123456'')),
       fullName = Some (js ''Naveen Tripathi''),
       role = super_admin, isActive = True, lastLogin = None\<rparr>]"
  by (simp add: setupDatabase_def save_def pre_save_def new_Admin_def genSalt_def)

lemma trim_superadmin: "trim (js ''superadmin'') = js ''superadmin''"
  by (simp add: trim_def is_space_def js_def)

subsection \<open>Token verification\<close>




text \<open>
  C8 as stated fails: a token that is signed with the configured secret and whose
  expiry has passed, but which carries a not-before time that is still ahead, fails
  verification with the library's not-before error, neither of the claim's two reasons,
  and is answered 500.
\<close>

theorem C8_not_before_counterexample:
  "jwt_verify
      (Jwt ''s3cret''
        \<lparr>p_id = ObjectId 1, p_username = js ''superadmin'', p_role = super_admin, iat = 4,
         nbf = Some 100000, exp = Some 86404\<rparr>) ''s3cret'' 90000000
     = Inl NotBeforeError
   \<and> authenticateAdmin
      \<lparr>JWT_SECRET = Some ''s3cret'', JWT_EXPIRES_IN = None, SMTP_USER = None, ADMIN_EMAIL = None\<rparr>
      90000000 []
      (Some (Jwt ''s3cret''
        \<lparr>p_id = ObjectId 1, p_username = js ''superadmin'', p_role = super_admin, iat = 4,
         nbf = Some 100000, exp = Some 86404\<rparr>))
     = Respond (reply 500 False ''Authentication failed'')
   \<and> expired \<lparr>p_id = ObjectId 1, p_username = js ''superadmin'', p_role = super_admin, iat = 4,
         nbf = Some 100000, exp = Some 86404\<rparr> 90000000"
  by (simp add: authenticateAdmin_def not_yet_valid_def expired_def)

text \<open>
  C8, amended. A token that is malformed or signed with another key fails verification
  with the invalid-token error and is answered 401 with the invalid-token message; a
  token signed with the configured secret that carries no not-before time still ahead
  and whose expiry has passed fails with the expiry error and is answered 401 with the
  expiry message; the library's two errors and the two messages are distinct. A token
  signed with the configured secret whose not-before time is still ahead fails with a
  third error, whether or not its expiry has passed, and is answered 500.
\<close>

theorem C8_invalid_and_expired_tokens:
  "((t = Malformed \<or> (\<exists>k p. t = Jwt k p \<and> k \<noteq> or_default (JWT_SECRET e) ''your-secret-key''))
      \<longrightarrow> jwt_verify t (or_default (JWT_SECRET e) ''your-secret-key'') now = Inl JsonWebTokenError
        \<and> authenticateAdmin e now store (Some t)
            = Respond (reply 401 False ''Access denied. Invalid token.''))
   \<and> ((\<exists>p. t = Jwt (or_default (JWT_SECRET e) ''your-secret-key'') p
            \<and> \<not> not_yet_valid p now \<and> expired p now)
      \<longrightarrow> jwt_verify t (or_default (JWT_SECRET e) ''your-secret-key'') now = Inl TokenExpiredError
        \<and> authenticateAdmin e now store (Some t)
            = Respond (reply 401 False ''Access denied. Token expired.''))
   \<and> ((\<exists>p. t = Jwt (or_default (JWT_SECRET e) ''your-secret-key'') p \<and> not_yet_valid p now)
      \<longrightarrow> jwt_verify t (or_default (JWT_SECRET e) ''your-secret-key'') now = Inl NotBeforeError
        \<and> authenticateAdmin e now store (Some t)
            = Respond (reply 500 False ''Authentication failed''))
   \<and> (reply 401 False ''Access denied. Invalid token.'' :: unit response)
      \<noteq> reply 401 False ''Access denied. Token expired.''"
  by (auto simp: authenticateAdmin_def reply_def)

theorem C8_invalid_and_expired_tokens_witness:
  "authenticateAdmin
      \<lparr>JWT_SECRET = Some ''s3cret'', JWT_EXPIRES_IN = None, SMTP_USER = None, ADMIN_EMAIL = None\<rparr>
      90000000 [] (Some Malformed)
     = Respond (reply 401 False ''Access denied. Invalid token.'')
   \<and> authenticateAdmin
      \<lparr>JWT_SECRET = Some ''s3cret'', JWT_EXPIRES_IN = None, SMTP_USER = None, ADMIN_EMAIL = None\<rparr>
      90000000 []
      (Some (Jwt ''s3cret''
        \<lparr>p_id = ObjectId 1, p_username = js ''superadmin'', p_role = super_admin, iat = 4,
         nbf = None, exp = Some 86404\<rparr>))
     = Respond (reply 401 False ''Access denied. Token expired.'')
   \<and> authenticateAdmin
      \<lparr>JWT_SECRET = Some ''s3cret'', JWT_EXPIRES_IN = None, SMTP_USER = None, ADMIN_EMAIL = None\<rparr>
      90000000 []
      (Some (Jwt ''s3cret''
        \<lparr>p_id = ObjectId 1, p_username = js ''superadmin'', p_role = super_admin, iat = 4,
         nbf = Some 100000, exp = None\<rparr>))
     = Respond (reply 500 False ''Authentication failed'')"
  using C8_invalid_and_expired_tokens
    [of Malformed
      "\<lparr>JWT_SECRET = Some ''s3cret'', JWT_EXPIRES_IN = None, SMTP_USER = None, ADMIN_EMAIL = None\<rparr>"
      90000000 "[]"]
    C8_invalid_and_expired_tokens
    [of "Jwt ''s3cret''
        \<lparr>p_id = ObjectId 1, p_username = js ''superadmin'', p_role = super_admin, iat = 4,
         nbf = None, exp = Some 86404\<rparr>"
      "\<lparr>JWT_SECRET = Some ''s3cret'', JWT_EXPIRES_IN = None, SMTP_USER = None, ADMIN_EMAIL = None\<rparr>"
      90000000 "[]"]
    C8_invalid_and_expired_tokens
    [of "Jwt ''s3cret''
        \<lparr>p_id = ObjectId 1, p_username = js ''superadmin'', p_role = super_admin, iat = 4,
         nbf = Some 100000, exp = None\<rparr>"
      "\<lparr>JWT_SECRET = Some ''s3cret'', JWT_EXPIRES_IN = None, SMTP_USER = None, ADMIN_EMAIL = None\<rparr>"
      90000000 "[]"]
  by (simp add: not_yet_valid_def expired_def)

subsection \<open>Login\<close>

text \<open>
  C2. For every stored administrator \<open>a\<close> that satisfies the schema, a login request whose
  identifier the store resolves to \<open>a\<close> (which is then active) and whose password verifies
  against the stored hash is answered 200 with a token signed with the configured secret. Verifying
  that token with the same secret returns, at every time before the expiry, exactly the
  payload with the id, username and role of \<open>a\<close> (and the expiry error from the expiry
  on), and the admin-auth middleware then attaches these fields to the request.
\<close>

theorem C2_login_token_roundtrip:
  assumes schema: "adminSchema a"
    and found: "findOne_active lc store (trim (req_username b)) = Some a"
    and pw: "comparePassword a (req_password b) = Inr True"
  shows "\<exists>tok summ store'.
      login_route e lc now rnd store b =
        (\<lparr>status_code = 200, success = True, msg = Some ''Login successful'',
          data = Some (Session tok summ)\<rparr>, store')
    \<and> tok = jwt_sign (a_id a) (username a) (role a)
            (or_default (JWT_SECRET e) ''your-secret-key'') (or_default_nat (JWT_EXPIRES_IN e) 86400) now
    \<and> (\<forall>now'. jwt_verify tok (or_default (JWT_SECRET e) ''your-secret-key'') now' =
          (if now' div 1000 < now div 1000 + int (or_default_nat (JWT_EXPIRES_IN e) 86400)
           then Inr \<lparr>p_id = ObjectId (a_id a), p_username = username a, p_role = role a,
                     iat = now div 1000, nbf = None,
                     exp = Some (now div 1000 + int (or_default_nat (JWT_EXPIRES_IN e) 86400))\<rparr>
           else Inl TokenExpiredError))
    \<and> (\<forall>now'. now' div 1000 < now div 1000 + int (or_default_nat (JWT_EXPIRES_IN e) 86400) \<longrightarrow>
          authenticateAdmin e now' store' (Some tok) =
            Next \<lparr>ra_id = a_id a, ra_username = username a, ra_email = email a, ra_role = role a\<rparr>)"
proof -
  from found have act: "isActive a"
    and ident: "username a = trim (trim (req_username b))
                \<or> email a = trim (toLowerCase lc (trim (req_username b)))"
    by (simp_all add: find_active_props)
  from schema ident have u: "trim (req_username b) \<noteq> []"
    by (auto simp: adminSchema_def toLowerCase_def trim_empty)
  from pw obtain p where p: "req_password b = JString p" and ok: "bcrypt_compare p (password a)"
    by (cases "req_password b") (simp_all add: comparePassword_def)
  from schema ok have "6 \<le> pw_units p"
    by (cases "(6::nat, password a)" rule: hash_of_minlength.cases)
      (auto simp: adminSchema_def)
  then have ne: "p \<noteq> Plain []" by auto
  from u p ne have valid: "fst (login_validators b) = []"
    by (simp add: login_validators_def Let_def)
  let ?a' = "a\<lparr>lastLogin := Some now\<rparr>"
  have upd: "updateLastLogin now rnd store (loaded a) = (write_admin store ?a', loaded ?a')"
    by (simp add: updateLastLogin_def save_def pre_save_def loaded_def)
  have fb: "findById (write_admin store ?a') (a_id a) = Some ?a'"
    using findById_write_admin [of store ?a'] by simp
  show ?thesis
    using valid found pw act upd fb
    by (simp add: login_route_def login_handler_def login_validators_def Let_def loaded_def
        jwt_verify_sign authenticateAdmin_def split: prod.splits)
qed

theorem C2_login_token_roundtrip_witness:
  "status_code (fst (login_route unset_env (map ascii_lower) 5000 0 (setupDatabase 1 7 [])
       \<lparr>req_username = js ''superadmin'',
        req_password = JString (Plain (js ''admin123456''))\<rparr>)) = 200
   \<and> jwt_verify (jwt_sign 1 (js ''superadmin'') super_admin ''your-secret-key'' 86400 5000)
        ''your-secret-key'' 86404999
      = Inr \<lparr>p_id = ObjectId 1, p_username = js ''superadmin'', p_role = super_admin, iat = 5,
             nbf = None, exp = Some 86405\<rparr>"
proof -
  let ?a = "\<lparr>a_id = 1, username = js ''superadmin'', email = js ''naveenp@tangiblelearning.in'',
        password = Bcrypt 12 7 (Plain (js ''admin123456'')),
        fullName = Some (js ''Naveen Tripathi''),
        role = super_admin, isActive = True, lastLogin = None\<rparr>"
  let ?b = "\<lparr>req_username = js ''superadmin'',
        req_password = JString (Plain (js ''admin123456''))\<rparr>"
  have schema: "adminSchema ?a"
    by (simp add: adminSchema_def js_def)
  have found: "findOne_active (map ascii_lower) (setupDatabase 1 7 []) (trim (req_username ?b))
                 = Some ?a"
    by (simp add: setupDatabase_empty findOne_active_def trim_superadmin)
  have pw: "comparePassword ?a (req_password ?b) = Inr True"
    by (simp add: comparePassword_def)
  from C2_login_token_roundtrip [OF schema found pw, of unset_env 5000 0]
  show ?thesis
    by (auto simp: unset_env_def jwt_verify_sign)
qed




subsection \<open>Passwords\<close>










subsection \<open>Contact submissions\<close>

lemma write_contact_mem: "d \<in> set (write_contact store d)"
  by (induction store) auto

lemma Contact_findById_write: "Contact_findById (write_contact store d) (c_id d) = Some d"
  by (induction store) (auto simp: Contact_findById_def)

lemma write_contact_found:
  "Contact_findById store i = Some c \<Longrightarrow> c_id d = i \<Longrightarrow>
     \<exists>k < length store. store ! k = c \<and> (\<forall>j < k. c_id (store ! j) \<noteq> i)
        \<and> write_contact store d = store[k := d]"
proof (induction store)
  case Nil
  then show ?case by (simp add: Contact_findById_def)
next
  case (Cons x xs)
  show ?case
  proof (cases "c_id x = i")
    case True
    with Cons.prems have "x = c" by (simp add: Contact_findById_def)
    with True Cons.prems show ?thesis by (intro exI [of _ 0]) simp
  next
    case False
    with Cons.prems have "Contact_findById xs i = Some c" by (simp add: Contact_findById_def)
    from Cons.IH [OF this Cons.prems(2)] obtain k where k: "k < length xs" "xs ! k = c"
      "\<forall>j < k. c_id (xs ! j) \<noteq> i" "write_contact xs d = xs[k := d]" by blast
    have "\<forall>j < Suc k. c_id ((x # xs) ! j) \<noteq> i"
    proof (intro allI impI)
      fix j assume "j < Suc k"
      then show "c_id ((x # xs) ! j) \<noteq> i" using False k(3) by (cases j) auto
    qed
    with k False Cons.prems(2) show ?thesis by (intro exI [of _ "Suc k"]) simp
  qed
qed

text \<open>
  C4. For a submission that passed validation, the handler of POST /api/contact answers
  429 if and only if the store holds a submission with the same email and the same
  message created at or after five minutes before now (the bound included). When it
  answers 429 the store is as it was, no notification is dispatched and nothing is
  written to the console. Otherwise it answers 201 and the store holds the new
  submission.
\<close>

theorem C4_duplicate_submission_window:
  assumes "validation_errors req = []"
  shows "((status_code (response (post_contact e tr now i store req)) = 429)
       = (\<exists>c \<in> set store. c_email c = b_email (body req) \<and> c_message c = b_message (body req)
            \<and> now - 5 * 60 * 1000 \<le> createdAt c))
    \<and> (status_code (response (post_contact e tr now i store req)) = 429 \<longrightarrow>
          post_contact e tr now i store req =
            \<lparr>response = reply 429 False
               ''Duplicate submission detected. Please wait before submitting again.'',
             contacts = store, notified = [], logged = []\<rparr>)
    \<and> (status_code (response (post_contact e tr now i store req)) \<noteq> 429 \<longrightarrow>
          response (post_contact e tr now i store req) =
            \<lparr>status_code = 201, success = True,
             msg = Some ''Thank you for your message! We will get back to you soon.'',
             data = Some (Submitted i now)\<rparr>
          \<and> (\<exists>c \<in> set (contacts (post_contact e tr now i store req)).
                c_id c = i \<and> c_email c = b_email (body req) \<and> c_message c = b_message (body req)
                \<and> name c = b_name (body req) \<and> status c = new \<and> createdAt c = now))"
proof (cases "find (\<lambda>c. c_email c = b_email (body req) \<and> c_message c = b_message (body req)
                        \<and> createdAt c \<ge> now - 5 * 60 * 1000) store")
  case None
  then have no: "\<not> (\<exists>c \<in> set store. c_email c = b_email (body req) \<and> c_message c = b_message (body req)
            \<and> now - 5 * 60 * 1000 \<le> createdAt c)"
    by (auto simp: find_None_iff)
  from None assms have "status_code (response (post_contact e tr now i store req)) = 201"
    by (simp add: post_contact_def Let_def)
  with None assms no show ?thesis
    by (auto simp: post_contact_def Let_def write_contact_mem intro!: bexI [OF _ write_contact_mem])
next
  case (Some c)
  then have yes: "\<exists>c \<in> set store. c_email c = b_email (body req) \<and> c_message c = b_message (body req)
            \<and> now - 5 * 60 * 1000 \<le> createdAt c"
    by (auto simp: find_Some_iff)
  with Some assms show ?thesis
    by (simp add: post_contact_def Let_def reply_def)
qed

theorem C4_duplicate_submission_window_witness:
  "status_code (response (post_contact unset_env (\<lambda>m. None) 1300000 2 [example_contact] example_req)) = 429
   \<and> contacts (post_contact unset_env (\<lambda>m. None) 1300000 2 [example_contact] example_req) = [example_contact]
   \<and> status_code (response (post_contact unset_env (\<lambda>m. None) 1300001 2 [example_contact] example_req)) = 201"
proof -
  have v: "validation_errors example_req = []" by (simp add: example_req_def)
  have d: "\<exists>c \<in> set [example_contact]. c_email c = b_email (body example_req)
      \<and> c_message c = b_message (body example_req) \<and> 1300000 - 5 * 60 * 1000 \<le> createdAt c"
    by (simp add: example_req_def example_contact_def)
  have n: "\<not> (\<exists>c \<in> set [example_contact]. c_email c = b_email (body example_req)
      \<and> c_message c = b_message (body example_req) \<and> 1300001 - 5 * 60 * 1000 \<le> createdAt c)"
    by (simp add: example_req_def example_contact_def)
  note at = C4_duplicate_submission_window [OF v, of unset_env "\<lambda>m. None" 1300000 2 "[example_contact]"]
  note after = C4_duplicate_submission_window [OF v, of unset_env "\<lambda>m. None" 1300001 2 "[example_contact]"]
  from at d have 1: "status_code (response (post_contact unset_env (\<lambda>m. None) 1300000 2 [example_contact] example_req)) = 429"
    by blast
  with at have 2: "contacts (post_contact unset_env (\<lambda>m. None) 1300000 2 [example_contact] example_req) = [example_contact]"
    by simp
  from after n have "status_code (response (post_contact unset_env (\<lambda>m. None) 1300001 2 [example_contact] example_req)) \<noteq> 429"
    by blast
  with after have 3: "status_code (response (post_contact unset_env (\<lambda>m. None) 1300001 2 [example_contact] example_req)) = 201"
    by simp
  from 1 2 3 show ?thesis by simp
qed

text \<open>
  C5 as stated fails for the reply mail: the handler of
  POST /api/admin/contacts/:id/reply awaits \<^verbatim>\<open>sendReplyEmail\<close>, and a failed dispatch, here
  for want of a configured SMTP user, is answered 500 with success false, not with the
  success response.
\<close>

theorem C5_reply_failure_counterexample:
  "settled (sendReplyEmail unset_env delivering example_contact (reply_subject example_reply)
       (reply_message example_reply) (ra_email example_admin))
     = Rejected ''Email configuration not found''
   \<and> reply_response (post_reply unset_env delivering [example_contact]
       example_admin (Some 1) example_reply)
     = reply 500 False ''Failed to send reply''
   \<and> \<not> success (reply_response (post_reply unset_env delivering [example_contact]
       example_admin (Some 1) example_reply))"
  by (simp add: post_reply_def Let_def sendReplyEmail_def unset_env_def reply_def
      example_contact_def example_admin_def example_reply_def Contact_findById_def)

text \<open>
  C5, amended. The notification mail of a contact submission is not awaited: the response
  and the store depend neither on the mail configuration nor on the transport. When the
  dispatch fails the submission is still answered 201 with success true and the failure
  is written to the console (by \<^verbatim>\<open>sendNotificationEmail\<close> and by the route's \<^verbatim>\<open>.catch\<close>);
  when the mail configuration is missing the notification is skipped. The reply mail of
  the admin reply route is awaited: the route answers 200 exactly when the dispatch
  succeeded, and a failed dispatch is written to the console (by \<^verbatim>\<open>sendReplyEmail\<close> and by
  the handler's \<^verbatim>\<open>catch\<close>) and answered 500 "Failed to send reply", with the contacts left
  as they were and no mail handed over. As \<^verbatim>\<open>createTransporter\<close> is written, every
  dispatch that the configuration lets it attempt fails.
\<close>

theorem C5_notification_not_awaited_reply_awaited:
  "response (post_contact e tr now i store req) = response (post_contact e2 tr2 now i store req)
   \<and> contacts (post_contact e tr now i store req) = contacts (post_contact e2 tr2 now i store req)
   \<and> (status_code (response (post_contact e tr now i store req)) = 201
        \<and> truthy (SMTP_USER e) \<and> truthy (ADMIN_EMAIL e)
      \<longrightarrow> success (response (post_contact e tr now i store req))
        \<and> notified (post_contact e tr now i store req) = []
        \<and> logged (post_contact e tr now i store req)
            = [''Failed to send notification email:'', ''Failed to send notification email:''])
   \<and> (status_code (response (post_contact e tr now i store req)) = 201
        \<and> \<not> (truthy (SMTP_USER e) \<and> truthy (ADMIN_EMAIL e))
      \<longrightarrow> success (response (post_contact e tr now i store req))
        \<and> notified (post_contact e tr now i store req) = []
        \<and> logged (post_contact e tr now i store req)
            = [''Email configuration not found, skipping notification''])
   \<and> (reply_errors rq = [] \<and> Contact_findById cs j = Some c
      \<longrightarrow> ((status_code (reply_response (post_reply e tr cs ra (Some j) rq)) = 200)
           = (settled (sendReplyEmail e tr c (reply_subject rq) (reply_message rq) (ra_email ra))
                = Resolved))
        \<and> (settled (sendReplyEmail e tr c (reply_subject rq) (reply_message rq) (ra_email ra))
              \<noteq> Resolved
           \<longrightarrow> post_reply e tr cs ra (Some j) rq
                 = \<lparr>reply_response = reply 500 False ''Failed to send reply'',
                    reply_contacts = cs, reply_mails = [],
                    reply_logged = [''Failed to send reply email:'', ''Send reply error:'']\<rparr>))
   \<and> settled (sendReplyEmail e tr c s m f) \<noteq> Resolved"
proof -
  have 1: "response (post_contact e tr now i store req) = response (post_contact e2 tr2 now i store req)
     \<and> contacts (post_contact e tr now i store req) = contacts (post_contact e2 tr2 now i store req)"
    by (simp add: post_contact_def Let_def split: option.splits)
  have 2: "status_code (response (post_contact e tr now i store req)) = 201
        \<and> truthy (SMTP_USER e) \<and> truthy (ADMIN_EMAIL e)
      \<longrightarrow> success (response (post_contact e tr now i store req))
        \<and> notified (post_contact e tr now i store req) = []
        \<and> logged (post_contact e tr now i store req)
            = [''Failed to send notification email:'', ''Failed to send notification email:'']"
    by (auto simp: post_contact_def Let_def sendNotificationEmail_def createTransporter_def
        reply_def split: option.splits if_splits)
  have 3: "status_code (response (post_contact e tr now i store req)) = 201
        \<and> \<not> (truthy (SMTP_USER e) \<and> truthy (ADMIN_EMAIL e))
      \<longrightarrow> success (response (post_contact e tr now i store req))
        \<and> notified (post_contact e tr now i store req) = []
        \<and> logged (post_contact e tr now i store req)
            = [''Email configuration not found, skipping notification'']"
    by (auto simp: post_contact_def Let_def sendNotificationEmail_def reply_def
        split: option.splits if_splits)
  have 5: "settled (sendReplyEmail e tr c s m f) \<noteq> Resolved" for c :: "'z contact_rec_scheme" and s m f
    by (simp add: sendReplyEmail_def createTransporter_def)
  have 4: "reply_errors rq = [] \<and> Contact_findById cs j = Some c
      \<longrightarrow> ((status_code (reply_response (post_reply e tr cs ra (Some j) rq)) = 200)
           = (settled (sendReplyEmail e tr c (reply_subject rq) (reply_message rq) (ra_email ra))
                = Resolved))
        \<and> (settled (sendReplyEmail e tr c (reply_subject rq) (reply_message rq) (ra_email ra))
              \<noteq> Resolved
           \<longrightarrow> post_reply e tr cs ra (Some j) rq
                 = \<lparr>reply_response = reply 500 False ''Failed to send reply'',
                    reply_contacts = cs, reply_mails = [],
                    reply_logged = [''Failed to send reply email:'', ''Send reply error:'']\<rparr>)"
    by (simp add: post_reply_def Let_def reply_def sendReplyEmail_def createTransporter_def)
  from 1 2 3 4 5 show ?thesis by blast
qed

theorem C5_notification_not_awaited_reply_awaited_witness:
  "response (post_contact mail_env refusing 1300001 2 [example_contact] example_req)
     = response (post_contact unset_env delivering 1300001 2 [example_contact] example_req)
   \<and> logged (post_contact mail_env refusing 1300001 2 [example_contact] example_req)
     = [''Failed to send notification email:'', ''Failed to send notification email:'']
   \<and> post_reply mail_env refusing [example_contact] example_admin (Some 1) example_reply
     = \<lparr>reply_response = reply 500 False ''Failed to send reply'',
        reply_contacts = [example_contact], reply_mails = [],
        reply_logged = [''Failed to send reply email:'', ''Send reply error:'']\<rparr>"
proof -
  let ?out = "post_contact mail_env refusing 1300001 2 [example_contact] example_req"
  note c5 = C5_notification_not_awaited_reply_awaited
    [of mail_env refusing 1300001 2 "[example_contact]" example_req unset_env delivering
      example_reply "[example_contact]" 1 example_contact example_admin
      "reply_subject example_reply" "reply_message example_reply" "ra_email example_admin"]
  have s: "status_code (response ?out) = 201"
    by (simp add: post_contact_def Let_def example_req_def example_contact_def)
  have h: "status_code (response ?out) = 201 \<and> truthy (SMTP_USER mail_env)
      \<and> truthy (ADMIN_EMAIL mail_env)"
    using s by (simp add: mail_env_def)
  have r: "reply_errors example_reply = []
      \<and> Contact_findById [example_contact] 1 = Some example_contact"
    by (simp add: example_reply_def Contact_findById_def example_contact_def)
  note failed = c5 [THEN conjunct2, THEN conjunct2, THEN conjunct2, THEN conjunct2, THEN conjunct2]
  note awaited = c5 [THEN conjunct2, THEN conjunct2, THEN conjunct2, THEN conjunct2,
      THEN conjunct1, rule_format, OF r, THEN conjunct2, rule_format, OF failed]
  from c5 [THEN conjunct1] c5 [THEN conjunct2, THEN conjunct2, THEN conjunct1, rule_format, OF h]
    awaited
  show ?thesis by simp
qed

subsection \<open>Reading a contact\<close>

text \<open>
  C10. GET /api/admin/contacts/:id writes: when the contact found has status new, the
  handler returns it with status read and the store holds it with status read at the
  place of the contact found, every other field of it and every other contact being as
  before; a later fetch finds it read. When the contact found has any other status, or
  none is found, the store is as it was. This holds for every extension of the contact
  record by further fields.
\<close>

theorem C10_get_contact_marks_read:
  "(Contact_findById store i = Some c \<and> status c = new \<longrightarrow>
      get_contact store (Some i) =
        (\<lparr>status_code = 200, success = True, msg = None, data = Some (c\<lparr>status := read\<rparr>)\<rparr>,
         write_contact store (c\<lparr>status := read\<rparr>))
      \<and> (\<exists>k < length store. store ! k = c \<and> (\<forall>j < k. c_id (store ! j) \<noteq> i)
            \<and> snd (get_contact store (Some i)) = store[k := c\<lparr>status := read\<rparr>])
      \<and> Contact_findById (snd (get_contact store (Some i))) i = Some (c\<lparr>status := read\<rparr>))
   \<and> (Contact_findById store i = Some c \<and> status c \<noteq> new \<longrightarrow>
      get_contact store (Some i) =
        (\<lparr>status_code = 200, success = True, msg = None, data = Some c\<rparr>, store))
   \<and> (Contact_findById store i = None \<longrightarrow>
      get_contact store (Some i) = (reply 404 False ''Contact not found'', store))"
proof -
  have a: "Contact_findById store i = Some c \<and> status c = new \<longrightarrow>
      get_contact store (Some i) =
        (\<lparr>status_code = 200, success = True, msg = None, data = Some (c\<lparr>status := read\<rparr>)\<rparr>,
         write_contact store (c\<lparr>status := read\<rparr>))
      \<and> (\<exists>k < length store. store ! k = c \<and> (\<forall>j < k. c_id (store ! j) \<noteq> i)
            \<and> snd (get_contact store (Some i)) = store[k := c\<lparr>status := read\<rparr>])
      \<and> Contact_findById (snd (get_contact store (Some i))) i = Some (c\<lparr>status := read\<rparr>)"
  proof (intro impI, elim conjE)
    assume f: "Contact_findById store i = Some c" and n: "status c = new"
    then have g: "get_contact store (Some i) =
        (\<lparr>status_code = 200, success = True, msg = None, data = Some (c\<lparr>status := read\<rparr>)\<rparr>,
         write_contact store (c\<lparr>status := read\<rparr>))"
      by (simp add: get_contact_def)
    from f have ci: "c_id c = i" by (auto simp: Contact_findById_def find_Some_iff)
    then have "c_id (c\<lparr>status := read\<rparr>) = i" by simp
    from write_contact_found [OF f this]
    have k: "\<exists>k < length store. store ! k = c \<and> (\<forall>j < k. c_id (store ! j) \<noteq> i)
            \<and> snd (get_contact store (Some i)) = store[k := c\<lparr>status := read\<rparr>]"
      by (simp add: g)
    have "Contact_findById (write_contact store (c\<lparr>status := read\<rparr>)) (c_id (c\<lparr>status := read\<rparr>))
        = Some (c\<lparr>status := read\<rparr>)"
      by (rule Contact_findById_write)
    with ci have "Contact_findById (snd (get_contact store (Some i))) i = Some (c\<lparr>status := read\<rparr>)"
      by (simp add: g)
    with g k show "get_contact store (Some i) =
        (\<lparr>status_code = 200, success = True, msg = None, data = Some (c\<lparr>status := read\<rparr>)\<rparr>,
         write_contact store (c\<lparr>status := read\<rparr>))
      \<and> (\<exists>k < length store. store ! k = c \<and> (\<forall>j < k. c_id (store ! j) \<noteq> i)
            \<and> snd (get_contact store (Some i)) = store[k := c\<lparr>status := read\<rparr>])
      \<and> Contact_findById (snd (get_contact store (Some i))) i = Some (c\<lparr>status := read\<rparr>)"
      by blast
  qed
  have b: "Contact_findById store i = Some c \<and> status c \<noteq> new \<longrightarrow>
      get_contact store (Some i) =
        (\<lparr>status_code = 200, success = True, msg = None, data = Some c\<rparr>, store)"
    by (simp add: get_contact_def)
  have c: "Contact_findById store i = None \<longrightarrow>
      get_contact store (Some i) = (reply 404 False ''Contact not found'', store)"
    by (simp add: get_contact_def)
  from a b c show ?thesis by blast
qed

theorem C10_get_contact_marks_read_witness:
  "get_contact [example_contact] (Some 1) =
     (\<lparr>status_code = 200, success = True, msg = None, data = Some (example_contact\<lparr>status := read\<rparr>)\<rparr>,
      [example_contact\<lparr>status := read\<rparr>])
   \<and> get_contact [example_contact\<lparr>status := replied\<rparr>] (Some 1) =
     (\<lparr>status_code = 200, success = True, msg = None, data = Some (example_contact\<lparr>status := replied\<rparr>)\<rparr>,
      [example_contact\<lparr>status := replied\<rparr>])"
proof -
  have f: "Contact_findById [example_contact] 1 = Some example_contact \<and> status example_contact = new"
    by (simp add: Contact_findById_def example_contact_def)
  have g: "Contact_findById [example_contact\<lparr>status := replied\<rparr>] 1 = Some (example_contact\<lparr>status := replied\<rparr>)
      \<and> status (example_contact\<lparr>status := replied\<rparr>) \<noteq> new"
    by (simp add: Contact_findById_def example_contact_def)
  from C10_get_contact_marks_read [of "[example_contact]" 1 example_contact, THEN conjunct1, rule_format, OF f]
  have 1: "get_contact [example_contact] (Some 1) =
     (\<lparr>status_code = 200, success = True, msg = None, data = Some (example_contact\<lparr>status := read\<rparr>)\<rparr>,
      [example_contact\<lparr>status := read\<rparr>])"
    by (simp add: example_contact_def)
  from C10_get_contact_marks_read [of "[example_contact\<lparr>status := replied\<rparr>]" 1 "example_contact\<lparr>status := replied\<rparr>",
      THEN conjunct2, THEN conjunct1, rule_format, OF g]
  have 2: "get_contact [example_contact\<lparr>status := replied\<rparr>] (Some 1) =
     (\<lparr>status_code = 200, success = True, msg = None, data = Some (example_contact\<lparr>status := replied\<rparr>)\<rparr>,
      [example_contact\<lparr>status := replied\<rparr>])" .
  from 1 2 show ?thesis by (rule conjI)
qed

subsection \<open>Rate limiting\<close>















end
